theory Spec2Isabelle
  imports Main "HOL-Library.Word"
begin

section \<open>JavaScript strings\<close>

text \<open>
  A JavaScript string is a sequence of UTF-16 code units. The regular expressions of
  \<^verbatim>\<open>lib/utils.ts\<close> (in the source tree as \<^verbatim>\<open>unnamed/part_001\<close>) have no \<^verbatim>\<open>u\<close> flag, so they match single code units,
  and a character class such as \<^verbatim>\<open>[\uD83C-\uDBFF]\<close> is a range of code units.
  String literals of the source are written \<open>js ''...''\<close>.
\<close>

type_synonym jsstring = "16 word list"

definition js :: "string \<Rightarrow> jsstring" where
  "js s = map (\<lambda>c. of_nat (of_char c)) s"

definition inRange :: "16 word \<Rightarrow> 16 word \<Rightarrow> 16 word \<Rightarrow> bool" where
  "inRange lo hi c = (lo \<le> c \<and> c \<le> hi)"

text \<open>\<^verbatim>\<open>text.replace(/[\ulo-\uhi]/g, '')\<close>: every code unit of the class is dropped.\<close>

definition removeRange :: "16 word \<Rightarrow> 16 word \<Rightarrow> jsstring \<Rightarrow> jsstring" where
  "removeRange lo hi text = filter (\<lambda>c. \<not> inRange lo hi c) text"

text \<open>
  \<^verbatim>\<open>text.replace(/[\uD83C-\uDBFF][\uDC00-\uDFFF]/g, '')\<close>: a global replace scans from
  the left, removes each match and goes on after it; what it has removed is not scanned
  again.
\<close>

fun removeSurrogatePairs :: "jsstring \<Rightarrow> jsstring" where
  "removeSurrogatePairs (h # l # rest) =
     (if inRange 0xD83C 0xDBFF h \<and> inRange 0xDC00 0xDFFF l
      then removeSurrogatePairs rest
      else h # removeSurrogatePairs (l # rest))"
| "removeSurrogatePairs [c] = [c]"
| "removeSurrogatePairs [] = []"

text \<open>
  \<^verbatim>\<open>cleanUnicodeText\<close> of \<^verbatim>\<open>lib/utils.ts\<close>. The only falsy string is the empty one,
  which is returned as it is.
\<close>

definition cleanUnicodeText :: "jsstring \<Rightarrow> jsstring" where
  "cleanUnicodeText text =
     (if text = [] then text
      else removeRange 0x200D 0x200D
            (removeRange 0xFE00 0xFE0F
              (removeRange 0x2700 0x27BF
                (removeRange 0x2600 0x26FF
                  (removeSurrogatePairs text)))))"

text \<open>
  \<^verbatim>\<open>sanitizeErrorMessage\<close>: a thrown value is modelled by the string the function reads
  from it (\<^verbatim>\<open>error.message\<close> of an \<^verbatim>\<open>Error\<close>, \<^verbatim>\<open>String(error)\<close> otherwise).
\<close>

definition sanitizeErrorMessage :: "jsstring \<Rightarrow> jsstring" where
  "sanitizeErrorMessage message = cleanUnicodeText message"

subsection \<open>The character classes the specification names\<close>

text \<open>Control characters are the code points of category Cc: U+0000 to U+001F and U+007F to U+009F.\<close>

definition isControlChar :: "16 word \<Rightarrow> bool" where
  "isControlChar c = (c \<le> 0x1F \<or> inRange 0x7F 0x9F c)"

definition isVariationSelector :: "16 word \<Rightarrow> bool" where
  "isVariationSelector c = inRange 0xFE00 0xFE0F c"

text \<open>An emoji surrogate pair, as the source's own expression reads it, somewhere in the string.\<close>

fun containsEmojiPair :: "jsstring \<Rightarrow> bool" where
  "containsEmojiPair (h # l # rest) =
     ((inRange 0xD83C 0xDBFF h \<and> inRange 0xDC00 0xDFFF l) \<or> containsEmojiPair (l # rest))"
| "containsEmojiPair [c] = False"
| "containsEmojiPair [] = False"

text \<open>Every high surrogate of the emoji range is directly followed by a low surrogate.\<close>

fun pairedHighs :: "jsstring \<Rightarrow> bool" where
  "pairedHighs [] = True"
| "pairedHighs (h # rest) =
     ((if inRange 0xD83C 0xDBFF h
       then (case rest of [] \<Rightarrow> False | l # _ \<Rightarrow> inRange 0xDC00 0xDFFF l)
       else True)
      \<and> pairedHighs rest)"

definition isAscii :: "jsstring \<Rightarrow> bool" where
  "isAscii text = list_all (\<lambda>c. c \<le> 0x7F) text"

section \<open>The store (\<^verbatim>\<open>frontend/lib/store.ts\<close>)\<close>

text \<open>
  The string unions of the source are datatypes, a \<^verbatim>\<open>Date\<close> is its time value in
  milliseconds, an optional field is an \<open>option\<close>. The two interfaces share field names,
  so the fields carry the name of their interface.
\<close>

datatype StepStatus = Step_pending | Step_in_progress | Step_completed | Step_error

datatype ProjectStatus =
  Project_draft | Project_processing | Project_completed | Project_error | Project_archived

type_synonym Date = nat

record ProjectStep =
  step_id :: jsstring
  step_name :: jsstring
  step_description :: jsstring
  step_status :: StepStatus
  step_output :: "jsstring option"
  step_filePath :: "jsstring option"
  step_createdAt :: Date
  step_updatedAt :: Date

record Project =
  project_id :: jsstring
  project_name :: jsstring
  project_description :: jsstring
  project_status :: ProjectStatus
  project_steps :: "ProjectStep list"
  project_workspace :: jsstring
  project_createdAt :: Date
  project_updatedAt :: Date
  project_archivedAt :: "Date option"

datatype MessageType = Message_user | Message_assistant | Message_system

record ChatMessage =
  message_id :: jsstring
  message_type :: MessageType
  message_content :: jsstring
  message_timestamp :: Date
  message_metadata :: "(jsstring \<times> jsstring) list option"

record AppState =
  sidebarOpen :: bool
  darkMode :: bool
  currentProject :: "Project option"
  projects :: "Project list"
  messages :: "ChatMessage list"
  isProcessing :: bool
  activeFile :: "jsstring option"
  openFiles :: "jsstring list"
  fileContents :: "(jsstring \<times> jsstring) list"

definition initialState :: AppState where
  "initialState =
     \<lparr>sidebarOpen = True, darkMode = False, currentProject = None, projects = [],
      messages = [], isProcessing = False, activeFile = None, openFiles = [],
      fileContents = []\<rparr>"

text \<open>
  \<^verbatim>\<open>Partial<ProjectStep>\<close> and \<^verbatim>\<open>Partial<Project>\<close>: \<open>None\<close> is a key that is absent.
  For the optional fields \<open>Some None\<close> is the key present with the value
  \<^verbatim>\<open>undefined\<close>.
\<close>

record StepUpdates =
  upd_step_id :: "jsstring option"
  upd_step_name :: "jsstring option"
  upd_step_description :: "jsstring option"
  upd_step_status :: "StepStatus option"
  upd_step_output :: "jsstring option option"
  upd_step_filePath :: "jsstring option option"
  upd_step_createdAt :: "Date option"
  upd_step_updatedAt :: "Date option"


definition noStepUpdates :: StepUpdates where
  "noStepUpdates =
     \<lparr>upd_step_id = None, upd_step_name = None, upd_step_description = None,
      upd_step_status = None, upd_step_output = None, upd_step_filePath = None,
      upd_step_createdAt = None, upd_step_updatedAt = None\<rparr>"


definition orElse :: "'a option \<Rightarrow> 'a \<Rightarrow> 'a" where
  "orElse u v = (case u of None \<Rightarrow> v | Some w \<Rightarrow> w)"

text \<open>The spread \<^verbatim>\<open>{ ...s, ...updates, updatedAt: new Date() }\<close>.\<close>

definition spreadStep :: "Date \<Rightarrow> ProjectStep \<Rightarrow> StepUpdates \<Rightarrow> ProjectStep" where
  "spreadStep now s updates =
     \<lparr>step_id = orElse (upd_step_id updates) (step_id s),
      step_name = orElse (upd_step_name updates) (step_name s),
      step_description = orElse (upd_step_description updates) (step_description s),
      step_status = orElse (upd_step_status updates) (step_status s),
      step_output = orElse (upd_step_output updates) (step_output s),
      step_filePath = orElse (upd_step_filePath updates) (step_filePath s),
      step_createdAt = orElse (upd_step_createdAt updates) (step_createdAt s),
      step_updatedAt = now\<rparr>"


subsection \<open>The workspace path\<close>

text \<open>
  The class \<^verbatim>\<open>\s\<close> of an ECMAScript regular expression: the white space and line
  terminator code units.
\<close>

definition isWhiteSpace :: "16 word \<Rightarrow> bool" where
  "isWhiteSpace c =
     (inRange 0x09 0x0D c \<or> c = 0x20 \<or> c = 0xA0 \<or> c = 0x1680 \<or> inRange 0x2000 0x200A c \<or>
      c = 0x2028 \<or> c = 0x2029 \<or> c = 0x202F \<or> c = 0x205F \<or> c = 0x3000 \<or> c = 0xFEFF)"

text \<open>
  \<^verbatim>\<open>.replace(/\s+/g, '-')\<close>: each maximal run of white space becomes one hyphen. The
  flag says whether the code unit before was white space of a run already replaced.
\<close>

fun replaceRuns :: "bool \<Rightarrow> jsstring \<Rightarrow> jsstring" where
  "replaceRuns inRun [] = []"
| "replaceRuns inRun (c # cs) =
     (if isWhiteSpace c
      then (if inRun then replaceRuns True cs else 0x2D # replaceRuns True cs)
      else c # replaceRuns False cs)"

text \<open>
  The template literal of \<^verbatim>\<open>createProject\<close> and \<^verbatim>\<open>duplicateProject\<close>:
  \<^verbatim>\<open>`workspace/${name.toLowerCase().replace(/\s+/g, '-')}`\<close>. The built-in
  \<^verbatim>\<open>String.prototype.toLowerCase\<close> is the parameter \<open>lower\<close>.
\<close>

definition workspacePath :: "(jsstring \<Rightarrow> jsstring) \<Rightarrow> jsstring \<Rightarrow> jsstring" where
  "workspacePath lower name = js ''workspace/'' @ replaceRuns False (lower name)"

text \<open>\<^verbatim>\<open>toLowerCase\<close> on the letters of Basic Latin, where it adds 32 to A..Z.\<close>

definition toLowerCaseBasicLatin :: "jsstring \<Rightarrow> jsstring" where
  "toLowerCaseBasicLatin text = map (\<lambda>c. if inRange 0x41 0x5A c then c + 0x20 else c) text"

subsection \<open>Project actions\<close>

text \<open>
  \<^verbatim>\<open>crypto.randomUUID()\<close> and \<^verbatim>\<open>new Date()\<close> read the environment: the identifier
  and the time they return are the parameters \<open>uuid\<close> and \<open>now\<close> of an action. The
  \<^verbatim>\<open>console\<close> calls have no effect on the store and are left out.
\<close>

definition pendingStep :: "Date \<Rightarrow> string \<Rightarrow> string \<Rightarrow> string \<Rightarrow> ProjectStep" where
  "pendingStep now ident name description =
     \<lparr>step_id = js ident, step_name = js name, step_description = js description,
      step_status = Step_pending, step_output = None, step_filePath = None,
      step_createdAt = now, step_updatedAt = now\<rparr>"

definition createProject ::
  "(jsstring \<Rightarrow> jsstring) \<Rightarrow> jsstring \<Rightarrow> Date \<Rightarrow> jsstring \<Rightarrow> jsstring \<Rightarrow> AppState \<Rightarrow> AppState" where
  "createProject lower uuid now name description state =
     (let newProject =
        \<lparr>project_id = uuid,
         project_name = name,
         project_description = description,
         project_status = Project_draft,
         project_steps =
           [pendingStep now ''analysis'' ''Requirements Analysis''
              ''Analyzing project requirements and creating structured analysis'',
            pendingStep now ''architecture'' ''Technical Architecture''
              ''Designing technical architecture and system components'',
            pendingStep now ''planning'' ''Implementation Planning''
              ''Creating detailed task breakdown and implementation plan'',
            pendingStep now ''optimization'' ''Prompt Optimization''
              ''Generating optimized final prompt for code generation''],
         project_workspace = workspacePath lower name,
         project_createdAt = now,
         project_updatedAt = now,
         project_archivedAt = None\<rparr>
      in state\<lparr>projects := projects state @ [newProject], currentProject := Some newProject\<rparr>)"

definition addProject :: "Project \<Rightarrow> AppState \<Rightarrow> AppState" where
  "addProject project state =
     (case find (\<lambda>p. project_id p = project_id project) (projects state) of
        Some existingProject \<Rightarrow> state
      | None \<Rightarrow> state\<lparr>projects := projects state @ [project]\<rparr>)"


definition deleteProject :: "jsstring \<Rightarrow> AppState \<Rightarrow> AppState" where
  "deleteProject ident state =
     state\<lparr>projects := filter (\<lambda>p. project_id p \<noteq> ident) (projects state),
           currentProject :=
             (case currentProject state of
                None \<Rightarrow> None
              | Some cp \<Rightarrow> if project_id cp = ident then None else Some cp)\<rparr>"


definition setCurrentProject :: "Project option \<Rightarrow> AppState \<Rightarrow> AppState" where
  "setCurrentProject project state = state\<lparr>currentProject := project\<rparr>"

definition updateSteps :: "Date \<Rightarrow> jsstring \<Rightarrow> StepUpdates \<Rightarrow> ProjectStep list \<Rightarrow> ProjectStep list" where
  "updateSteps now stepId updates steps =
     map (\<lambda>s. if step_id s = stepId then spreadStep now s updates else s) steps"

definition updateProjectStep ::
  "Date \<Rightarrow> jsstring \<Rightarrow> jsstring \<Rightarrow> StepUpdates \<Rightarrow> AppState \<Rightarrow> AppState" where
  "updateProjectStep now projectId stepId updates state =
     state\<lparr>projects :=
             map (\<lambda>p. if project_id p = projectId
                       then p\<lparr>project_steps := updateSteps now stepId updates (project_steps p),
                              project_updatedAt := now\<rparr>
                       else p)
               (projects state),
           currentProject :=
             (case currentProject state of
                None \<Rightarrow> None
              | Some cp \<Rightarrow>
                  if project_id cp = projectId
                  then Some (cp\<lparr>project_steps := updateSteps now stepId updates (project_steps cp),
                                 project_updatedAt := now\<rparr>)
                  else Some cp)\<rparr>"

definition addMessage ::
  "jsstring \<Rightarrow> Date \<Rightarrow> MessageType \<Rightarrow> jsstring \<Rightarrow> (jsstring \<times> jsstring) list option \<Rightarrow>
   AppState \<Rightarrow> AppState" where
  "addMessage uuid now type content metadata state =
     (let newMessage =
        \<lparr>message_id = uuid, message_type = type, message_content = content,
         message_timestamp = now, message_metadata = metadata\<rparr>
      in state\<lparr>messages := messages state @ [newMessage]\<rparr>)"

definition setProcessing :: "bool \<Rightarrow> AppState \<Rightarrow> AppState" where
  "setProcessing processing state = state\<lparr>isProcessing := processing\<rparr>"

section \<open>The step list (\<^verbatim>\<open>components/workflow/workflow-steps.tsx\<close>)\<close>

text \<open>
  The component \<^verbatim>\<open>WorkflowSteps\<close> (in the source tree as \<^verbatim>\<open>unnamed/part_007\<close>).
  \<^verbatim>\<open>canRunStep\<close> closes over \<^verbatim>\<open>steps = currentProject.steps\<close>, here its first
  argument. Reading \<^verbatim>\<open>steps[index - 1].status\<close> past the end of the array throws a
  \<^verbatim>\<open>TypeError\<close>, which is the result \<open>None\<close>.
\<close>

definition canRunStep :: "ProjectStep list \<Rightarrow> ProjectStep \<Rightarrow> nat \<Rightarrow> bool option" where
  "canRunStep steps step index =
     (if step_status step = Step_in_progress then Some False
      else if index = 0 then Some True
      else if index - 1 < length steps
           then Some (step_status (steps ! (index - 1)) = Step_completed)
           else None)"

section \<open>The workflow page (\<^verbatim>\<open>app/project/[id]/workflow/page.tsx\<close>)\<close>

text \<open>
  \<^verbatim>\<open>handleStepAction\<close> for the actions that run a step. The later copy of the page
  (\<^verbatim>\<open>unnamed/part_011\<close>) has the same code for them and one more action,
  \<^verbatim>\<open>load\<close>, which returns before any of it.

  The answer of the backend is untyped in the source (\<^verbatim>\<open>as any\<close>). Its
  \<^verbatim>\<open>output\<close> is handed to \<^verbatim>\<open>cleanUnicodeText\<close>, which calls \<^verbatim>\<open>text.replace\<close>:
  the value is absent (\<^verbatim>\<open>undefined\<close> or \<^verbatim>\<open>null\<close>), a string, or a value of
  another type (a number, a boolean, an array, an object), of which the code reads the
  truthiness and on which \<^verbatim>\<open>replace\<close> is not a function.
\<close>

datatype BackendValue = Absent | Text jsstring | Other bool

text \<open>
  What the backend returns for a step, as \<^verbatim>\<open>handleStepAction\<close> reads it. The status
  and the identifier are only compared with strings. \<^verbatim>\<open>file_path\<close> is stored as it
  is and \<^verbatim>\<open>error\<close> goes through \<^verbatim>\<open>String\<close>; no method is called on either, and
  they are the strings read from them (\<open>None\<close> when absent).
\<close>

record BackendStep =
  backend_id :: jsstring
  backend_status :: jsstring
  backend_output :: BackendValue
  backend_file_path :: "jsstring option"
  backend_error :: "jsstring option"

text \<open>
  One call of \<^verbatim>\<open>apiClient.getProject\<close>: it rejects (or the answer has no list of
  steps), with the message of the error thrown, or it delivers the steps of the project.
\<close>

datatype PollResponse = PollRejected jsstring | PollProject "BackendStep list"

text \<open>
  The environment of one run of \<^verbatim>\<open>handleStepAction\<close>: the outcome of the agent call
  (\<open>None\<close> when it resolves, the message of the error when it rejects), the answer to
  the poll of each attempt, and the clock and the identifier generator. The run has the
  events \<open>0\<close> (its start), \<open>k + 1\<close> (the poll of attempt \<open>k\<close>) and \<open>31\<close> (its error
  handler); \<open>env_now\<close> and \<open>env_uuid\<close> give the time and the identifier read in an
  event.
\<close>

record Env =
  env_agent :: "jsstring option"
  env_poll :: "nat \<Rightarrow> PollResponse"
  env_now :: "nat \<Rightarrow> Date"
  env_uuid :: "nat \<Rightarrow> jsstring"

text \<open>The store and the page's own state \<^verbatim>\<open>isRunning\<close>.\<close>

record Page =
  store :: AppState
  isRunning :: bool

datatype StepAction = Action_run | Action_edit | Action_regenerate

text \<open>\<^verbatim>\<open>a || b\<close> on an optional string: \<^verbatim>\<open>undefined\<close> and the empty string are falsy.\<close>

definition orString :: "jsstring option \<Rightarrow> jsstring \<Rightarrow> jsstring" where
  "orString v d = (case v of None \<Rightarrow> d | Some s \<Rightarrow> if s \<noteq> [] then s else d)"

text \<open>
  \<^verbatim>\<open>step.output ? cleanUnicodeText(step.output) : `${stepId} completed`\<close>. The result
  is \<open>None\<close> when \<^verbatim>\<open>cleanUnicodeText\<close> throws the \<^verbatim>\<open>TypeError\<close>: on a truthy
  value that is not a string.
\<close>

definition cleanOutputOf :: "jsstring \<Rightarrow> BackendValue \<Rightarrow> jsstring option" where
  "cleanOutputOf stepId output =
     (case output of
        Absent \<Rightarrow> Some (stepId @ js '' completed'')
      | Text s \<Rightarrow> Some (if s \<noteq> [] then cleanUnicodeText s else stepId @ js '' completed'')
      | Other isTruthy \<Rightarrow> if isTruthy then None else Some (stepId @ js '' completed''))"

text \<open>
  The body of the inner \<^verbatim>\<open>try\<close> of the waiting loop, for attempt \<open>attempts\<close>: the
  message of the error thrown, if any, and the flag \<^verbatim>\<open>completed\<close> and the store where
  the body ends or throws. The flag is set before the output is sanitized.
\<close>

definition pollTry ::
  "Env \<Rightarrow> jsstring \<Rightarrow> jsstring \<Rightarrow> jsstring \<Rightarrow> bool \<Rightarrow> nat \<Rightarrow> AppState \<Rightarrow>
   jsstring option \<times> bool \<times> AppState" where
  "pollTry env currentProjectId stepId workspaceBase completed attempts state =
     (case env_poll env attempts of
        PollRejected message \<Rightarrow> (Some message, completed, state)
      | PollProject steps \<Rightarrow>
          (case find (\<lambda>s. backend_id s = stepId) steps of
             None \<Rightarrow> (None, completed, state)
           | Some step \<Rightarrow>
               if backend_status step = js ''completed'' then
                 (case cleanOutputOf stepId (backend_output step) of
                    None \<Rightarrow> (Some (js ''text.replace is not a function''), True, state)
                  | Some cleanOutput \<Rightarrow>
                      (let state1 =
                        updateProjectStep (env_now env (Suc attempts)) currentProjectId stepId
                          (noStepUpdates
                             \<lparr>upd_step_status := Some Step_completed,
                              upd_step_output := Some (Some cleanOutput),
                              upd_step_filePath :=
                                Some (Some (orString (backend_file_path step)
                                  (workspaceBase @ js ''/'' @ stepId @ js ''.md'')))\<rparr>)
                          state;
                      state2 =
                        addMessage (env_uuid env (Suc attempts)) (env_now env (Suc attempts))
                          Message_assistant (stepId @ js '' phase completed successfully!'')
                          (Some [(js ''step'', stepId)]) state1
                       in (None, True, state2)))
               else if backend_status step = js ''error'' then
                 (let rawErrorMsg = orString (backend_error step) (stepId @ js '' failed'');
                      cleanErrorMsg = cleanUnicodeText rawErrorMsg;
                      safeErrorMsg =
                        (if cleanErrorMsg \<noteq> [] then cleanErrorMsg
                         else stepId @ js '' encountered an error'')
                  in (Some safeErrorMsg, completed, state))
               else (None, completed, state)))"

text \<open>
  One turn of the loop after its 10 second wait: the \<^verbatim>\<open>try\<close> and its \<^verbatim>\<open>catch\<close>,
  which writes the sanitized message to the console and nothing else, so that the flag
  and the store stay as the \<^verbatim>\<open>try\<close> left them.
\<close>

definition pollAttempt ::
  "Env \<Rightarrow> jsstring \<Rightarrow> jsstring \<Rightarrow> jsstring \<Rightarrow> bool \<Rightarrow> nat \<Rightarrow> AppState \<Rightarrow> bool \<times> AppState" where
  "pollAttempt env currentProjectId stepId workspaceBase completed attempts state =
     (case pollTry env currentProjectId stepId workspaceBase completed attempts state of
        (pollError, completed', state') \<Rightarrow> (completed', state'))"

text \<open>
  \<^verbatim>\<open>while (!completed && attempts < 30)\<close>, with the milliseconds asked of
  \<^verbatim>\<open>setTimeout\<close> so far in \<open>waited\<close>.
\<close>

function pollLoop ::
  "Env \<Rightarrow> jsstring \<Rightarrow> jsstring \<Rightarrow> jsstring \<Rightarrow> bool \<Rightarrow> nat \<Rightarrow> nat \<Rightarrow> AppState \<Rightarrow>
   bool \<times> nat \<times> nat \<times> AppState" where
  "pollLoop env currentProjectId stepId workspaceBase completed attempts waited state =
     (if \<not> completed \<and> attempts < 30
      then (case pollAttempt env currentProjectId stepId workspaceBase completed attempts state of
              (completed', state') \<Rightarrow>
                pollLoop env currentProjectId stepId workspaceBase completed' (Suc attempts)
                  (waited + 10000) state')
      else (completed, attempts, waited, state))"
  by pat_completeness auto
termination
  by (relation "measure (\<lambda>(env, currentProjectId, stepId, workspaceBase, completed, attempts, waited, state). 30 - attempts)")
    auto

declare pollLoop.simps [simp del]

definition knownStep :: "jsstring \<Rightarrow> bool" where
  "knownStep stepId =
     (stepId = js ''analysis'' \<or> stepId = js ''architecture'' \<or> stepId = js ''planning'' \<or>
      stepId = js ''optimization'')"

text \<open>
  The outer \<^verbatim>\<open>try\<close>: the store it leaves and the message of the error it throws, if
  any. The \<^verbatim>\<open>switch\<close> throws on a step it does not know; each of its four cases awaits
  one agent call, whose arguments do not matter to what follows.
\<close>

definition runStep ::
  "Env \<Rightarrow> jsstring \<Rightarrow> jsstring \<Rightarrow> Project \<Rightarrow> AppState \<Rightarrow> AppState \<times> jsstring option" where
  "runStep env projectId stepId current state =
     (let state1 =
            updateProjectStep (env_now env 0) (project_id current) stepId
              (noStepUpdates\<lparr>upd_step_status := Some Step_in_progress\<rparr>) state;
          state2 =
            addMessage (env_uuid env 0) (env_now env 0) Message_system
              (js ''Starting '' @ stepId @ js '' phase...'') (Some [(js ''step'', stepId)]) state1;
          workspaceBase =
            (if project_workspace current \<noteq> [] then project_workspace current
             else js ''workspace/'' @ projectId)
      in if \<not> knownStep stepId then (state2, Some (js ''Unknown step: '' @ stepId))
         else (case env_agent env of
                 Some message \<Rightarrow> (state2, Some message)
               | None \<Rightarrow>
                   (case pollLoop env (project_id current) stepId workspaceBase False 0 0 state2 of
                      (completed, attempts, waited, state3) \<Rightarrow>
                        if \<not> completed
                        then (state3, Some (stepId @ js '' timed out after 5 minutes''))
                        else (state3, None))))"

definition handleStepAction ::
  "Env \<Rightarrow> jsstring \<Rightarrow> jsstring \<Rightarrow> StepAction \<Rightarrow> Page \<Rightarrow> Page" where
  "handleStepAction env projectId stepId action page =
     (case currentProject (store page) of
        None \<Rightarrow> page
      | Some current \<Rightarrow>
          (case runStep env projectId stepId current (setProcessing True (store page)) of
             (state, None) \<Rightarrow> \<lparr>store = setProcessing False state, isRunning = False\<rparr>
           | (state, Some error) \<Rightarrow>
               (let state1 =
                      updateProjectStep (env_now env 31) (project_id current) stepId
                        (noStepUpdates\<lparr>upd_step_status := Some Step_error\<rparr>) state;
                    cleanErrorMessage = sanitizeErrorMessage error;
                    state2 =
                      addMessage (env_uuid env 31) (env_now env 31) Message_system
                        (js ''Error in '' @ stepId @ js '' phase: '' @ cleanErrorMessage)
                        (Some [(js ''step'', stepId)]) state1
                in \<lparr>store = setProcessing False state2, isRunning = False\<rparr>)))"

section \<open>The project status of the specification\<close>

text \<open>
  The aggregate the specification gives for \<^verbatim>\<open>Project.status\<close>, in its words: error if
  any step is error; completed if all steps are completed and the project is not
  archived; processing if any step is in progress; otherwise draft.
\<close>

definition derivedStatus :: "Project \<Rightarrow> ProjectStatus" where
  "derivedStatus p =
     (if list_ex (\<lambda>s. step_status s = Step_error) (project_steps p) then Project_error
      else if list_all (\<lambda>s. step_status s = Step_completed) (project_steps p)
              \<and> project_status p \<noteq> Project_archived
           then Project_completed
      else if list_ex (\<lambda>s. step_status s = Step_in_progress) (project_steps p)
           then Project_processing
      else Project_draft)"

definition inProgressCount :: "Project \<Rightarrow> nat" where
  "inProgressCount p = length (filter (\<lambda>s. step_status s = Step_in_progress) (project_steps p))"

section \<open>Observations on a run\<close>

text \<open>What the poll of attempt \<open>k\<close> says about the step: that it is completed, that it failed.\<close>

definition reportsCompleted :: "Env \<Rightarrow> jsstring \<Rightarrow> nat \<Rightarrow> bool" where
  "reportsCompleted env stepId k =
     (case env_poll env k of
        PollRejected message \<Rightarrow> False
      | PollProject steps \<Rightarrow>
          (case find (\<lambda>s. backend_id s = stepId) steps of
             None \<Rightarrow> False
           | Some step \<Rightarrow> backend_status step = js ''completed''))"

definition reportsError :: "Env \<Rightarrow> jsstring \<Rightarrow> nat \<Rightarrow> bool" where
  "reportsError env stepId k =
     (case env_poll env k of
        PollRejected message \<Rightarrow> False
      | PollProject steps \<Rightarrow>
          (case find (\<lambda>s. backend_id s = stepId) steps of
             None \<Rightarrow> False
           | Some step \<Rightarrow> backend_status step = js ''error''))"

text \<open>None of the 30 attempts sees the step completed.\<close>

definition noCompletion :: "Env \<Rightarrow> jsstring \<Rightarrow> bool" where
  "noCompletion env stepId = list_all (\<lambda>k. \<not> reportsCompleted env stepId k) [0..<30]"

definition stepsNamed :: "jsstring \<Rightarrow> Project \<Rightarrow> ProjectStep list" where
  "stepsNamed stepId p = filter (\<lambda>s. step_id s = stepId) (project_steps p)"

definition projectsWithId :: "jsstring \<Rightarrow> AppState \<Rightarrow> Project list" where
  "projectsWithId ident state = filter (\<lambda>p. project_id p = ident) (projects state)"

definition stepStatuses :: "Project \<Rightarrow> StepStatus list" where
  "stepStatuses p = map step_status (project_steps p)"

text \<open>The object literal \<^verbatim>\<open>{ status: v }\<close>.\<close>

definition statusUpdate :: "StepStatus \<Rightarrow> StepUpdates" where
  "statusUpdate v = noStepUpdates\<lparr>upd_step_status := Some v\<rparr>"

section \<open>Example inputs\<close>

text \<open>
  A page on a project just created, a backend whose answer for the step \<^verbatim>\<open>analysis\<close>
  is always \<^verbatim>\<open>error\<close>, and one whose answer is \<^verbatim>\<open>error\<close> first and
  \<^verbatim>\<open>completed\<close> from the second poll on.
\<close>

definition demoBackendStep :: "string \<Rightarrow> string \<Rightarrow> BackendStep" where
  "demoBackendStep ident status =
     \<lparr>backend_id = js ident, backend_status = js status, backend_output = Text (js ''ok''),
      backend_file_path = None, backend_error = Some (js ''boom'')\<rparr>"

definition demoEnv :: "(nat \<Rightarrow> PollResponse) \<Rightarrow> Env" where
  "demoEnv polls =
     \<lparr>env_agent = None, env_poll = polls, env_now = (\<lambda>e. 10000 * e),
      env_uuid = (\<lambda>e. [of_nat e])\<rparr>"

definition alwaysError :: "nat \<Rightarrow> PollResponse" where
  "alwaysError k = PollProject [demoBackendStep ''analysis'' ''error'']"

definition errorThenCompleted :: "nat \<Rightarrow> PollResponse" where
  "errorThenCompleted k =
     (if k = 0 then PollProject [demoBackendStep ''analysis'' ''error'']
      else PollProject [demoBackendStep ''analysis'' ''completed''])"


definition demoPage :: Page where
  "demoPage =
     \<lparr>store = createProject toLowerCaseBasicLatin (js ''p1'') 0 (js ''Demo App'') (js ''demo'')
                initialState,
      isRunning = False\<rparr>"

text \<open>The four steps of a project with the statuses given.\<close>

definition demoSteps :: "StepStatus list \<Rightarrow> ProjectStep list" where
  "demoSteps statuses =
     map2 (\<lambda>ident status. (pendingStep 0 ident ident ident)\<lparr>step_status := status\<rparr>)
       [''analysis'', ''architecture'', ''planning'', ''optimization''] statuses"

text \<open>
  The project of \<open>demoPage\<close> with its first two steps completed, and the same after
  \<^verbatim>\<open>handleStepAction('analysis', 'regenerate')\<close> has marked the first step in progress.
\<close>

definition twoCompleted :: AppState where
  "twoCompleted =
     updateProjectStep 2 (js ''p1'') (js ''architecture'') (statusUpdate Step_completed)
       (updateProjectStep 1 (js ''p1'') (js ''analysis'') (statusUpdate Step_completed)
          (store demoPage))"

definition regenerating :: AppState where
  "regenerating =
     updateProjectStep 3 (js ''p1'') (js ''analysis'') (statusUpdate Step_in_progress) twoCompleted"


definition demoProject :: "string \<Rightarrow> string \<Rightarrow> Project" where
  "demoProject ident name =
     \<lparr>project_id = js ident, project_name = js name, project_description = [],
      project_status = Project_draft, project_steps = [],
      project_workspace = js ''workspace/'' @ js name,
      project_createdAt = 0, project_updatedAt = 0, project_archivedAt = None\<rparr>"

section \<open>Properties of the sanitizer\<close>

lemma removeRange_id:
  "list_all (\<lambda>c. \<not> inRange lo hi c) s \<Longrightarrow> removeRange lo hi s = s"
  by (induction s) (simp_all add: removeRange_def)

lemma removeSurrogatePairs_id:
  "list_all (\<lambda>c. \<not> inRange 0xD83C 0xDBFF c) s \<Longrightarrow> removeSurrogatePairs s = s"
  by (induction s rule: removeSurrogatePairs.induct) simp_all

lemma ascii_outside:
  assumes "c \<le> (0x7F :: 16 word)" and "0x80 \<le> lo"
  shows "\<not> inRange lo hi c"
  using assms by (simp add: inRange_def word_le_nat_alt)

lemma isAscii_outside:
  assumes "isAscii s" and "0x80 \<le> lo"
  shows "list_all (\<lambda>c. \<not> inRange lo hi c) s"
  using assms by (simp add: isAscii_def list_all_iff ascii_outside)

text \<open>
  C10. \<^verbatim>\<open>cleanUnicodeText\<close> is the identity on input made of the code units U+0000 to
  U+007F only, control characters included.
\<close>

theorem cleanUnicodeText_ascii_identity:
  "isAscii s \<Longrightarrow> cleanUnicodeText s = s"
proof -
  assume a: "isAscii s"
  have "removeSurrogatePairs s = s"
    by (rule removeSurrogatePairs_id) (rule isAscii_outside [OF a], simp)
  moreover have "removeRange 0x2600 0x26FF s = s"
    by (rule removeRange_id) (rule isAscii_outside [OF a], simp)
  moreover have "removeRange 0x2700 0x27BF s = s"
    by (rule removeRange_id) (rule isAscii_outside [OF a], simp)
  moreover have "removeRange 0xFE00 0xFE0F s = s"
    by (rule removeRange_id) (rule isAscii_outside [OF a], simp)
  moreover have "removeRange 0x200D 0x200D s = s"
    by (rule removeRange_id) (rule isAscii_outside [OF a], simp)
  ultimately show ?thesis
    by (simp add: cleanUnicodeText_def)
qed

theorem cleanUnicodeText_ascii_identity_witness:
  "isAscii [0x41, 0x07, 0x7F, 0x0A] \<and> cleanUnicodeText [0x41, 0x07, 0x7F, 0x0A] = [0x41, 0x07, 0x7F, 0x0A]"
proof -
  have h: "isAscii [0x41, 0x07, 0x7F, 0x0A]"
    by (simp add: isAscii_def)
  show ?thesis
    using h cleanUnicodeText_ascii_identity [OF h] by simp
qed

lemma low_not_high: "inRange 0xDC00 0xDFFF c \<Longrightarrow> \<not> inRange 0xD83C 0xDBFF c"
  by (simp add: inRange_def word_le_nat_alt)

lemma removeSurrogatePairs_no_high:
  "pairedHighs s \<Longrightarrow> list_all (\<lambda>c. \<not> inRange 0xD83C 0xDBFF c) (removeSurrogatePairs s)"
  by (induction s rule: removeSurrogatePairs.induct) (auto simp: low_not_high)

lemma containsEmojiPair_high:
  "containsEmojiPair s \<Longrightarrow> \<not> list_all (\<lambda>c. \<not> inRange 0xD83C 0xDBFF c) s"
  by (induction s rule: containsEmojiPair.induct) auto

lemma removeRange_keeps: "list_all P s \<Longrightarrow> list_all P (removeRange lo hi s)"
  by (simp add: removeRange_def list_all_iff)

lemma cleanUnicodeText_no_high:
  "pairedHighs s \<Longrightarrow> list_all (\<lambda>c. \<not> inRange 0xD83C 0xDBFF c) (cleanUnicodeText s)"
  by (simp add: cleanUnicodeText_def removeRange_keeps removeSurrogatePairs_no_high)

lemma set_removeSurrogatePairs_subset: "set (removeSurrogatePairs s) \<subseteq> set s"
  by (induction s rule: removeSurrogatePairs.induct) auto

lemma removeSurrogatePairs_keeps_other:
  "\<not> inRange 0xD83C 0xDBFF c \<Longrightarrow> \<not> inRange 0xDC00 0xDFFF c \<Longrightarrow>
   c \<in> set s \<Longrightarrow> c \<in> set (removeSurrogatePairs s)"
  by (induction s rule: removeSurrogatePairs.induct) auto

lemma control_outside:
  assumes "isControlChar c" and "0xA0 \<le> lo"
  shows "\<not> inRange lo hi c"
  using assms by (auto simp add: isControlChar_def inRange_def word_le_nat_alt)

text \<open>
  C6, as the code has it. The result of \<^verbatim>\<open>cleanUnicodeText\<close> holds no variation
  selector, no code unit of U+2600 to U+27BF and no zero-width joiner. Where every high
  surrogate U+D83C to U+DBFF of the input is directly followed by a low surrogate, the
  result holds no emoji surrogate pair. Control characters are not removed: the result
  holds a control character exactly when the input does.
\<close>

theorem cleanUnicodeText_strips:
  "list_all (\<lambda>c. \<not> isVariationSelector c \<and> \<not> inRange 0x2600 0x27BF c \<and> c \<noteq> 0x200D)
     (cleanUnicodeText s)
   \<and> (pairedHighs s \<longrightarrow> \<not> containsEmojiPair (cleanUnicodeText s))
   \<and> (\<forall>c. isControlChar c \<longrightarrow> (c \<in> set (cleanUnicodeText s)) = (c \<in> set s))"
proof (intro conjI allI impI)
  show "list_all (\<lambda>c. \<not> isVariationSelector c \<and> \<not> inRange 0x2600 0x27BF c \<and> c \<noteq> 0x200D)
     (cleanUnicodeText s)"
    by (auto simp add: cleanUnicodeText_def removeRange_def list_all_iff isVariationSelector_def
        inRange_def word_le_nat_alt)
next
  assume "pairedHighs s"
  then show "\<not> containsEmojiPair (cleanUnicodeText s)"
    using containsEmojiPair_high cleanUnicodeText_no_high by blast
next
  fix c assume c: "isControlChar c"
  have 1: "\<not> inRange 0xD83C 0xDBFF c" "\<not> inRange 0xDC00 0xDFFF c" "\<not> inRange 0x2600 0x26FF c"
    "\<not> inRange 0x2700 0x27BF c" "\<not> inRange 0xFE00 0xFE0F c" "\<not> inRange 0x200D 0x200D c"
    by (rule control_outside [OF c], simp)+
  have "(c \<in> set (removeSurrogatePairs s)) = (c \<in> set s)"
    using removeSurrogatePairs_keeps_other [OF 1(1) 1(2)] set_removeSurrogatePairs_subset by blast
  with 1 show "(c \<in> set (cleanUnicodeText s)) = (c \<in> set s)"
    by (auto simp add: cleanUnicodeText_def removeRange_def)
qed

text \<open>
  The letter A, the emoji U+1F600 with a variation selector, a dingbat, a zero-width
  joiner and the control character BEL: the letter and BEL remain.
\<close>

theorem cleanUnicodeText_strips_witness:
  "pairedHighs [0x41, 0xD83D, 0xDE00, 0xFE0F, 0x2728, 0x200D, 0x07]
   \<and> cleanUnicodeText [0x41, 0xD83D, 0xDE00, 0xFE0F, 0x2728, 0x200D, 0x07] = [0x41, 0x07]
   \<and> \<not> containsEmojiPair (cleanUnicodeText [0x41, 0xD83D, 0xDE00, 0xFE0F, 0x2728, 0x200D, 0x07])
   \<and> isControlChar 0x07"
  using cleanUnicodeText_strips [of "[0x41, 0xD83D, 0xDE00, 0xFE0F, 0x2728, 0x200D, 0x07]"]
  by (simp add: cleanUnicodeText_def removeRange_def inRange_def isControlChar_def)

text \<open>The control character BEL passes the sanitizer.\<close>

theorem cleanUnicodeText_keeps_control:
  "cleanUnicodeText [0x07] = [0x07] \<and> isControlChar 0x07"
  by (simp add: cleanUnicodeText_def removeRange_def inRange_def isControlChar_def)

text \<open>
  On input that is not well-formed UTF-16 a pair can stand in the result: the removal of
  one pair, or of a symbol, brings a high and a low surrogate together, and no replace
  scans its own result.
\<close>

lemma cleanUnicodeText_joins_surrogates:
  "cleanUnicodeText [0xD83C, 0xD83C, 0xDC00, 0xDC00] = [0xD83C, 0xDC00]
   \<and> cleanUnicodeText [0xD83C, 0x2600, 0xDC00] = [0xD83C, 0xDC00]
   \<and> containsEmojiPair [0xD83C, 0xDC00]"
  by (simp add: cleanUnicodeText_def removeRange_def inRange_def)

section \<open>Properties of the store\<close>

lemma find_Some_ex: "find P xs = Some x \<Longrightarrow> list_ex P xs"
  by (auto simp add: find_Some_iff list_ex_iff)

lemma find_None_ex: "find P xs = None \<Longrightarrow> \<not> list_ex P xs"
  by (auto simp add: find_None_iff list_ex_iff)

text \<open>
  C9. \<^verbatim>\<open>addProject\<close> leaves the whole state as it is when the list holds a project
  with the identifier of the new one, and otherwise appends the project to the list and
  changes nothing else.
\<close>

theorem addProject_duplicate_safe:
  "(list_ex (\<lambda>q. project_id q = project_id p) (projects state) \<longrightarrow> addProject p state = state)
   \<and> (\<not> list_ex (\<lambda>q. project_id q = project_id p) (projects state) \<longrightarrow>
        addProject p state = state\<lparr>projects := projects state @ [p]\<rparr>)"
  by (auto simp add: addProject_def split: option.splits dest: find_Some_ex find_None_ex)

theorem addProject_duplicate_safe_witness:
  "addProject (demoProject ''a'' ''second'') (initialState\<lparr>projects := [demoProject ''a'' ''first'']\<rparr>)
     = initialState\<lparr>projects := [demoProject ''a'' ''first'']\<rparr>
   \<and> addProject (demoProject ''b'' ''second'') (initialState\<lparr>projects := [demoProject ''a'' ''first'']\<rparr>)
     = initialState\<lparr>projects := [demoProject ''a'' ''first'', demoProject ''b'' ''second'']\<rparr>"
  using
    addProject_duplicate_safe [of "demoProject ''a'' ''second''"
      "initialState\<lparr>projects := [demoProject ''a'' ''first'']\<rparr>"]
    addProject_duplicate_safe [of "demoProject ''b'' ''second''"
      "initialState\<lparr>projects := [demoProject ''a'' ''first'']\<rparr>"]
  by (simp add: demoProject_def js_def initialState_def)

lemmas eval_defs = twoCompleted_def regenerating_def demoPage_def createProject_def
  initialState_def Let_def updateProjectStep_def updateSteps_def statusUpdate_def spreadStep_def
  noStepUpdates_def orElse_def pendingStep_def stepStatuses_def js_def


text \<open>
  C5, as the code has it. \<^verbatim>\<open>Project.status\<close> is a stored field. \<^verbatim>\<open>createProject\<close>
  stores \<^verbatim>\<open>draft\<close>, which is the aggregate of the four pending steps, and
  \<^verbatim>\<open>updateProjectStep\<close> changes the status of steps without changing the status of
  any project, in the list or current. So after \<^verbatim>\<open>updateProjectStep\<close> the stored
  status of a project of the list is the aggregate of its steps exactly when that
  aggregate is the status stored before.
\<close>

theorem project_status_is_stored:
  "map project_status (projects (updateProjectStep now projectId stepId updates state))
     = map project_status (projects state)
   \<and> map_option project_status
        (currentProject (updateProjectStep now projectId stepId updates state))
     = map_option project_status (currentProject state)
   \<and> list_all2 (\<lambda>before after.
          (project_status after = derivedStatus after)
            = (derivedStatus after = project_status before))
        (projects state) (projects (updateProjectStep now projectId stepId updates state))
   \<and> (\<exists>p. currentProject (createProject lower uuid now' name description state) = Some p
          \<and> projects (createProject lower uuid now' name description state) = projects state @ [p]
          \<and> project_status p = Project_draft \<and> derivedStatus p = Project_draft)"
proof (intro conjI)
  show "map project_status (projects (updateProjectStep now projectId stepId updates state))
     = map project_status (projects state)"
    by (simp add: updateProjectStep_def)
  show "map_option project_status
        (currentProject (updateProjectStep now projectId stepId updates state))
     = map_option project_status (currentProject state)"
    by (simp add: updateProjectStep_def split: option.splits)
  show "list_all2 (\<lambda>before after.
          (project_status after = derivedStatus after)
            = (derivedStatus after = project_status before))
        (projects state) (projects (updateProjectStep now projectId stepId updates state))"
    by (auto simp add: updateProjectStep_def list_all2_map2 intro!: list.rel_refl_strong)
  show "\<exists>p. currentProject (createProject lower uuid now' name description state) = Some p
          \<and> projects (createProject lower uuid now' name description state) = projects state @ [p]
          \<and> project_status p = Project_draft \<and> derivedStatus p = Project_draft"
    by (simp add: createProject_def derivedStatus_def pendingStep_def Let_def)
qed

text \<open>
  The first step of a project just created is marked in progress, then completed: the
  stored status stays \<^verbatim>\<open>draft\<close>, which the aggregate is not after the first update
  and is again after the second.
\<close>

theorem project_status_is_stored_witness:
  "map project_status (projects (updateProjectStep 1 (js ''p1'') (js ''analysis'')
       (statusUpdate Step_in_progress) (store demoPage))) = [Project_draft]
   \<and> map stepStatuses (projects (updateProjectStep 1 (js ''p1'') (js ''analysis'')
       (statusUpdate Step_in_progress) (store demoPage)))
       = [[Step_in_progress, Step_pending, Step_pending, Step_pending]]
   \<and> map derivedStatus (projects (updateProjectStep 1 (js ''p1'') (js ''analysis'')
       (statusUpdate Step_in_progress) (store demoPage))) = [Project_processing]
   \<and> map project_status (projects (updateProjectStep 2 (js ''p1'') (js ''analysis'')
       (statusUpdate Step_completed) (updateProjectStep 1 (js ''p1'') (js ''analysis'')
       (statusUpdate Step_in_progress) (store demoPage)))) = [Project_draft]
   \<and> map derivedStatus (projects (updateProjectStep 2 (js ''p1'') (js ''analysis'')
       (statusUpdate Step_completed) (updateProjectStep 1 (js ''p1'') (js ''analysis'')
       (statusUpdate Step_in_progress) (store demoPage)))) = [Project_draft]"
  using project_status_is_stored [where now = 1 and projectId = "js ''p1''"
      and stepId = "js ''analysis''" and updates = "statusUpdate Step_in_progress"
      and state = "store demoPage" and lower = toLowerCaseBasicLatin and uuid = "js ''p2''"
      and now' = 0 and name = "js ''Demo App''" and description = "js ''demo''"]
  by (simp add: eval_defs derivedStatus_def)

text \<open>
  A project just created whose first step is marked in progress, as
  \<^verbatim>\<open>handleStepAction\<close> does first: the stored status is still \<^verbatim>\<open>draft\<close>, the
  aggregate is \<^verbatim>\<open>processing\<close>.
\<close>

theorem project_status_not_derived:
  "map project_status (projects (updateProjectStep 1 (js ''p1'') (js ''analysis'')
       (statusUpdate Step_in_progress) (store demoPage))) = [Project_draft]
   \<and> map derivedStatus (projects (updateProjectStep 1 (js ''p1'') (js ''analysis'')
       (statusUpdate Step_in_progress) (store demoPage))) = [Project_processing]"
  by (simp add: eval_defs derivedStatus_def)




section \<open>Properties of the run gate\<close>

text \<open>
  C1, as the code has it. For a step of the list, \<^verbatim>\<open>canRunStep\<close> returns true exactly
  when the step is not in progress and it is the first step or the step directly before
  it is completed. Steps further back are not read.
\<close>

theorem canRunStep_iff:
  "index < length steps \<Longrightarrow>
   (canRunStep steps (steps ! index) index = Some True) =
     (step_status (steps ! index) \<noteq> Step_in_progress \<and>
      (index = 0 \<or> step_status (steps ! (index - 1)) = Step_completed))"
  by (auto simp add: canRunStep_def)

theorem canRunStep_iff_witness:
  "(1::nat) < length (demoSteps [Step_completed, Step_pending, Step_pending, Step_pending])
   \<and> canRunStep (demoSteps [Step_completed, Step_pending, Step_pending, Step_pending])
        (demoSteps [Step_completed, Step_pending, Step_pending, Step_pending] ! 1) 1 = Some True
   \<and> step_status (demoSteps [Step_completed, Step_pending, Step_pending, Step_pending] ! 0)
        = Step_completed"
proof -
  have h: "(1::nat) < length (demoSteps [Step_completed, Step_pending, Step_pending, Step_pending])"
    by (simp add: demoSteps_def)
  show ?thesis
    using h canRunStep_iff [OF h]
    by (simp add: demoSteps_def pendingStep_def)
qed

text \<open>
  The first step failed when it was generated again, the second is still completed: the
  third may run.
\<close>

theorem canRunStep_skips_earlier_steps:
  "canRunStep (demoSteps [Step_error, Step_completed, Step_pending, Step_pending])
      (demoSteps [Step_error, Step_completed, Step_pending, Step_pending] ! 2) 2 = Some True
   \<and> step_status (demoSteps [Step_error, Step_completed, Step_pending, Step_pending] ! 0)
        \<noteq> Step_completed"
  by (simp add: canRunStep_def demoSteps_def pendingStep_def)

text \<open>
  C2, as the code has it. \<^verbatim>\<open>canRunStep\<close> refuses a step that is itself in progress,
  and a step whose direct predecessor is in progress. It reads no other step.
\<close>

theorem canRunStep_refuses_running:
  "(step_status step = Step_in_progress \<longrightarrow> canRunStep steps step index = Some False)
   \<and> (0 < index \<and> index \<le> length steps
        \<and> step_status (steps ! (index - 1)) = Step_in_progress \<longrightarrow>
      canRunStep steps step index = Some False)"
  by (auto simp add: canRunStep_def)

theorem canRunStep_refuses_running_witness:
  "step_status (demoSteps [Step_in_progress, Step_pending, Step_pending, Step_pending] ! 0)
      = Step_in_progress
   \<and> canRunStep (demoSteps [Step_in_progress, Step_pending, Step_pending, Step_pending])
        (demoSteps [Step_in_progress, Step_pending, Step_pending, Step_pending] ! 0) 0 = Some False
   \<and> canRunStep (demoSteps [Step_in_progress, Step_pending, Step_pending, Step_pending])
        (demoSteps [Step_in_progress, Step_pending, Step_pending, Step_pending] ! 1) 1 = Some False"
  using canRunStep_refuses_running
      [of "demoSteps [Step_in_progress, Step_pending, Step_pending, Step_pending] ! 0"
          "demoSteps [Step_in_progress, Step_pending, Step_pending, Step_pending]" 0]
    canRunStep_refuses_running
      [of "demoSteps [Step_in_progress, Step_pending, Step_pending, Step_pending] ! 1"
          "demoSteps [Step_in_progress, Step_pending, Step_pending, Step_pending]" 1]
  by (simp add: demoSteps_def pendingStep_def)

text \<open>
  While the first step is generated again, \<^verbatim>\<open>canRunStep\<close> lets the third step run,
  and the first store update of that run leaves two steps of the project in progress.
\<close>

theorem two_steps_in_progress:
  "map stepStatuses (projects regenerating)
      = [[Step_in_progress, Step_completed, Step_pending, Step_pending]]
   \<and> canRunStep (project_steps (hd (projects regenerating)))
        (project_steps (hd (projects regenerating)) ! 2) 2 = Some True
   \<and> map inProgressCount
        (projects (updateProjectStep 4 (js ''p1'') (js ''planning'')
           (statusUpdate Step_in_progress) regenerating)) = [2]"
  by (simp add: eval_defs canRunStep_def inProgressCount_def)

section \<open>Properties of the waiting loop\<close>

lemma pollAttempt_unchanged:
  "\<not> reportsCompleted env stepId k \<Longrightarrow>
   pollAttempt env cp stepId wb completed k state = (completed, state)"
  by (auto simp add: pollAttempt_def pollTry_def reportsCompleted_def Let_def
      split: PollResponse.splits option.splits)

lemma pollAttempt_completed:
  "reportsCompleted env stepId k \<Longrightarrow>
   fst (pollAttempt env cp stepId wb completed k state) = True"
  by (auto simp add: pollAttempt_def pollTry_def reportsCompleted_def Let_def
      split: PollResponse.splits option.splits)


lemma pollLoop_skip:
  "\<not> completed \<Longrightarrow> attempts < 30 \<Longrightarrow> \<not> reportsCompleted env stepId attempts \<Longrightarrow>
   pollLoop env cp stepId wb completed attempts waited state =
   pollLoop env cp stepId wb completed (Suc attempts) (waited + 10000) state"
  by (subst pollLoop.simps) (simp add: pollAttempt_unchanged)

lemma pollLoop_stop:
  "completed \<or> 30 \<le> attempts \<Longrightarrow>
   pollLoop env cp stepId wb completed attempts waited state = (completed, attempts, waited, state)"
  by (subst pollLoop.simps) auto

lemma pollLoop_hit:
  "\<not> completed \<Longrightarrow> attempts < 30 \<Longrightarrow> reportsCompleted env stepId attempts \<Longrightarrow>
   pollLoop env cp stepId wb completed attempts waited state =
   (True, Suc attempts, waited + 10000,
    snd (pollAttempt env cp stepId wb completed attempts state))"
  using pollAttempt_completed [of env stepId attempts cp wb completed state]
  by (subst pollLoop.simps) (auto simp add: pollLoop_stop split: prod.splits)

text \<open>Thirty polls that never see the step completed leave the store as it was.\<close>

lemma pollLoop_timeout:
  "\<not> completed \<Longrightarrow> attempts \<le> 30 \<Longrightarrow>
   (\<forall>k. attempts \<le> k \<and> k < 30 \<longrightarrow> \<not> reportsCompleted env stepId k) \<Longrightarrow>
   pollLoop env cp stepId wb completed attempts waited state =
     (False, 30, waited + 10000 * (30 - attempts), state)"
proof (induction "30 - attempts" arbitrary: attempts waited)
  case 0
  then show ?case by (simp add: pollLoop_stop)
next
  case (Suc n)
  then have lt: "attempts < 30" and no: "\<not> reportsCompleted env stepId attempts"
    by auto
  have "pollLoop env cp stepId wb completed attempts waited state =
        pollLoop env cp stepId wb completed (Suc attempts) (waited + 10000) state"
    using Suc.prems(1) lt no by (rule pollLoop_skip)
  also have "\<dots> = (False, 30, (waited + 10000) + 10000 * (30 - Suc attempts), state)"
    using Suc by (intro Suc.hyps(1)) auto
  also have "(waited + 10000) + 10000 * (30 - Suc attempts) = waited + 10000 * (30 - attempts)"
    using lt by simp
  finally show ?case .
qed

lemma pollLoop_result:
  "attempts \<le> 30 \<Longrightarrow> \<not> completed \<Longrightarrow>
   (\<forall>k < attempts. \<not> reportsCompleted env stepId k) \<Longrightarrow>
   \<exists>completed' attempts' state'.
     pollLoop env cp stepId wb completed attempts (10000 * attempts) state =
       (completed', attempts', 10000 * attempts', state')
     \<and> attempts' \<le> 30
     \<and> (if completed'
         then 0 < attempts' \<and> reportsCompleted env stepId (attempts' - 1)
              \<and> (\<forall>k < attempts' - 1. \<not> reportsCompleted env stepId k)
         else attempts' = 30 \<and> (\<forall>k < 30. \<not> reportsCompleted env stepId k))"
proof (induction "30 - attempts" arbitrary: attempts state)
  case 0
  then have "attempts = 30" by simp
  with 0 show ?case by (auto simp add: pollLoop_stop)
next
  case (Suc n)
  then have lt: "attempts < 30" by auto
  show ?case
  proof (cases "reportsCompleted env stepId attempts")
    case True
    then show ?thesis
      using Suc.prems lt by (auto simp add: pollLoop_hit)
  next
    case False
    have step: "pollLoop env cp stepId wb completed attempts (10000 * attempts) state =
        pollLoop env cp stepId wb completed (Suc attempts) (10000 * Suc attempts) state"
      using pollLoop_skip [OF Suc.prems(2) lt False, of cp wb "10000 * attempts" state]
      by (simp add: add.commute)
    have "\<forall>k < Suc attempts. \<not> reportsCompleted env stepId k"
      using Suc.prems(3) False by (auto simp add: less_Suc_eq)
    then show ?thesis
      unfolding step using Suc lt by (intro Suc.hyps(1)) auto
  qed
qed

lemma noCompletion_iff: "noCompletion env stepId = (\<forall>k<30. \<not> reportsCompleted env stepId k)"
  by (auto simp add: noCompletion_def list_all_iff)

lemma runStep_timeout:
  assumes "knownStep stepId" and "env_agent env = None" and "noCompletion env stepId"
  shows "runStep env projectId stepId current state =
     (addMessage (env_uuid env 0) (env_now env 0) Message_system
        (js ''Starting '' @ stepId @ js '' phase...'') (Some [(js ''step'', stepId)])
        (updateProjectStep (env_now env 0) (project_id current) stepId
           (statusUpdate Step_in_progress) state),
      Some (stepId @ js '' timed out after 5 minutes''))"
proof -
  have no: "\<forall>k. 0 \<le> k \<and> k < 30 \<longrightarrow> \<not> reportsCompleted env stepId k"
    using assms(3) by (simp add: noCompletion_iff)
  have loop: "pollLoop env cp stepId wb False 0 0 st = (False, 30, 0 + 10000 * (30 - 0), st)"
    for cp wb st
    by (rule pollLoop_timeout) (use no in simp_all)
  show ?thesis
    unfolding runStep_def Let_def statusUpdate_def
    using assms(1,2) by (simp add: loop)
qed

text \<open>
  The waiting loop asks \<^verbatim>\<open>setTimeout\<close> for 10000 ms before each poll and polls at
  most 30 times, 300000 ms in all. It returns for every sequence of answers, in one of
  two ways: with \<^verbatim>\<open>completed\<close> set, right after the first poll that saw the step
  completed, or with \<^verbatim>\<open>completed\<close> unset after 30 polls none of which did. For a
  known step whose agent call resolved, the outer \<^verbatim>\<open>try\<close> then ends without an error
  in the first case and throws the timeout error in the second.
\<close>

lemma pollLoop_terminates:
  "(\<exists>completed attempts state'.
      pollLoop env cp stepId wb False 0 0 state = (completed, attempts, 10000 * attempts, state')
      \<and> attempts \<le> 30
      \<and> (if completed
          then 0 < attempts \<and> reportsCompleted env stepId (attempts - 1)
          else attempts = 30 \<and> noCompletion env stepId))
   \<and> (knownStep stepId \<and> env_agent env = None \<longrightarrow>
        snd (runStep env projectId stepId current state) =
          (if noCompletion env stepId then Some (stepId @ js '' timed out after 5 minutes'')
           else None))"
proof (intro conjI impI)
  obtain c a s where r: "pollLoop env cp stepId wb False 0 (10000 * 0) state = (c, a, 10000 * a, s)"
    and a: "a \<le> 30"
    and e: "if c then 0 < a \<and> reportsCompleted env stepId (a - 1)
                 \<and> (\<forall>k < a - 1. \<not> reportsCompleted env stepId k)
            else a = 30 \<and> (\<forall>k < 30. \<not> reportsCompleted env stepId k)"
    using pollLoop_result [where attempts = 0 and completed = False and env = env
        and stepId = stepId and cp = cp and wb = wb and state = state]
    by auto
  show "\<exists>completed attempts state'.
      pollLoop env cp stepId wb False 0 0 state = (completed, attempts, 10000 * attempts, state')
      \<and> attempts \<le> 30
      \<and> (if completed
          then 0 < attempts \<and> reportsCompleted env stepId (attempts - 1)
          else attempts = 30 \<and> noCompletion env stepId)"
    using r a e by (intro exI [of _ c] exI [of _ a] exI [of _ s]) (auto simp add: noCompletion_iff)
next
  assume k: "knownStep stepId \<and> env_agent env = None"
  show "snd (runStep env projectId stepId current state) =
          (if noCompletion env stepId then Some (stepId @ js '' timed out after 5 minutes'')
           else None)"
  proof (cases "noCompletion env stepId")
    case True
    then show ?thesis using k by (simp add: runStep_timeout)
  next
    case False
    have c: "c" if "pollLoop env cp' stepId wb' False 0 0 st = (c, a, w, s)" for cp' wb' st c a w s
      using pollLoop_result [where attempts = 0 and completed = False and env = env
            and stepId = stepId and cp = cp' and wb = wb' and state = st] that False
      by (auto simp add: noCompletion_iff split: if_splits)
    show ?thesis
      using k False by (auto simp add: runStep_def Let_def split: prod.splits dest: c)
  qed
qed

lemma known_analysis: "knownStep (js ''analysis'')"
  by (simp add: knownStep_def)

lemma agent_demoEnv: "env_agent (demoEnv polls) = None"
  by (simp add: demoEnv_def)

lemma not_completed_0: "\<not> reportsCompleted (demoEnv errorThenCompleted) (js ''analysis'') 0"
  by (simp add: reportsCompleted_def demoEnv_def errorThenCompleted_def demoBackendStep_def js_def)

lemma completed_1: "reportsCompleted (demoEnv errorThenCompleted) (js ''analysis'') (Suc 0)"
  by (simp add: reportsCompleted_def demoEnv_def errorThenCompleted_def demoBackendStep_def js_def)

lemma loop_errorThenCompleted:
  "pollLoop (demoEnv errorThenCompleted) cp (js ''analysis'') wb False 0 0 st =
     (True, 2, 20000,
      snd (pollAttempt (demoEnv errorThenCompleted) cp (js ''analysis'') wb False (Suc 0) st))"
  by (simp add: pollLoop_skip [OF _ _ not_completed_0] pollLoop_hit [OF _ _ completed_1])

section \<open>Properties of a run\<close>

lemma stepsNamed_updateSteps:
  "list_all (\<lambda>s. step_status s = v)
     (filter (\<lambda>s. step_id s = sid) (updateSteps now sid (statusUpdate v) steps))"
  by (induction steps)
    (simp_all add: updateSteps_def spreadStep_def statusUpdate_def noStepUpdates_def orElse_def)

lemma updateProjectStep_projects_aux:
  "list_all (\<lambda>p. list_all (\<lambda>s. step_status s = v) (stepsNamed sid p))
     (filter (\<lambda>p. project_id p = pid)
        (map (\<lambda>p. if project_id p = pid
                  then p\<lparr>project_steps := updateSteps now sid (statusUpdate v) (project_steps p),
                         project_updatedAt := now\<rparr>
                  else p) ps))"
  by (induction ps) (simp_all add: stepsNamed_def stepsNamed_updateSteps)

lemma updateProjectStep_projects:
  "list_all (\<lambda>p. list_all (\<lambda>s. step_status s = v) (stepsNamed sid p))
     (projectsWithId pid (updateProjectStep now pid sid (statusUpdate v) state))"
  using updateProjectStep_projects_aux [of v sid pid now "projects state"]
  by (simp add: projectsWithId_def updateProjectStep_def)

lemma updateProjectStep_current:
  "currentProject state = Some cp \<Longrightarrow> project_id cp = pid \<Longrightarrow>
   \<exists>cp'. currentProject (updateProjectStep now pid sid (statusUpdate v) state) = Some cp'
     \<and> project_id cp' = pid \<and> list_all (\<lambda>s. step_status s = v) (stepsNamed sid cp')"
  by (simp add: updateProjectStep_def stepsNamed_def stepsNamed_updateSteps)

text \<open>
  C4. Let the page have a current project, the step be one of the four and its agent
  call resolve. When none of the 30 polls sees the step completed,
  \<^verbatim>\<open>handleStepAction\<close> returns with every step of that name, in the current project
  and in each project of the list with its identifier, in status \<^verbatim>\<open>error\<close> (so none
  in progress), with the timeout error as the last message, and with the processing
  flags cleared.
\<close>

theorem handleStepAction_timeout:
  assumes "currentProject (store page) = Some current"
    and "knownStep stepId" and "env_agent env = None" and "noCompletion env stepId"
  shows "list_all (\<lambda>p. list_all (\<lambda>s. step_status s = Step_error) (stepsNamed stepId p))
           (projectsWithId (project_id current)
              (store (handleStepAction env projectId stepId action page)))
     \<and> (\<exists>current'. currentProject (store (handleStepAction env projectId stepId action page))
            = Some current'
           \<and> project_id current' = project_id current
           \<and> list_all (\<lambda>s. step_status s = Step_error) (stepsNamed stepId current'))
     \<and> message_content (last (messages (store (handleStepAction env projectId stepId action page))))
         = js ''Error in '' @ stepId @ js '' phase: ''
             @ cleanUnicodeText (stepId @ js '' timed out after 5 minutes'')
     \<and> \<not> isProcessing (store (handleStepAction env projectId stepId action page))
     \<and> \<not> isRunning (handleStepAction env projectId stepId action page)"
proof -
  let ?s0 = "setProcessing True (store page)"
  let ?s2 = "addMessage (env_uuid env 0) (env_now env 0) Message_system
        (js ''Starting '' @ stepId @ js '' phase...'') (Some [(js ''step'', stepId)])
        (updateProjectStep (env_now env 0) (project_id current) stepId
           (statusUpdate Step_in_progress) ?s0)"
  let ?s3 = "updateProjectStep (env_now env 31) (project_id current) stepId
        (statusUpdate Step_error) ?s2"
  let ?s4 = "addMessage (env_uuid env 31) (env_now env 31) Message_system
        (js ''Error in '' @ stepId @ js '' phase: ''
           @ sanitizeErrorMessage (stepId @ js '' timed out after 5 minutes''))
        (Some [(js ''step'', stepId)]) ?s3"
  have final: "handleStepAction env projectId stepId action page =
      \<lparr>store = setProcessing False ?s4, isRunning = False\<rparr>"
    using assms(1) runStep_timeout [OF assms(2-4)]
    by (simp add: handleStepAction_def Let_def statusUpdate_def)
  have "\<exists>c. currentProject ?s2 = Some c \<and> project_id c = project_id current"
    using assms(1) by (simp add: addMessage_def updateProjectStep_def setProcessing_def)
  then obtain c where c: "currentProject ?s2 = Some c" "project_id c = project_id current"
    by blast
  have projs: "projects (setProcessing False ?s4) = projects ?s3"
    by (simp add: setProcessing_def addMessage_def)
  have curr: "currentProject (setProcessing False ?s4) = currentProject ?s3"
    by (simp add: setProcessing_def addMessage_def)
  have 1: "list_all (\<lambda>p. list_all (\<lambda>s. step_status s = Step_error) (stepsNamed stepId p))
           (projectsWithId (project_id current) (setProcessing False ?s4))"
    using updateProjectStep_projects [of Step_error stepId "project_id current" "env_now env 31" ?s2]
    by (simp add: projectsWithId_def projs)
  have 2: "\<exists>current'. currentProject (setProcessing False ?s4) = Some current'
           \<and> project_id current' = project_id current
           \<and> list_all (\<lambda>s. step_status s = Step_error) (stepsNamed stepId current')"
    using updateProjectStep_current [OF c, of "env_now env 31" stepId Step_error]
    by (simp add: curr)
  have 3: "message_content (last (messages (setProcessing False ?s4)))
         = js ''Error in '' @ stepId @ js '' phase: ''
             @ cleanUnicodeText (stepId @ js '' timed out after 5 minutes'')"
    by (simp add: setProcessing_def addMessage_def sanitizeErrorMessage_def)
  have 4: "\<not> isProcessing (setProcessing False ?s4)"
    by (simp add: setProcessing_def)
  have sel: "store \<lparr>store = setProcessing False ?s4, isRunning = False\<rparr> = setProcessing False ?s4"
    "isRunning \<lparr>store = setProcessing False ?s4, isRunning = False\<rparr> = False"
    by simp_all
  show ?thesis
    unfolding final sel using 1 2 3 4 by blast
qed

lemma noCompletion_alwaysError: "noCompletion (demoEnv alwaysError) (js ''analysis'')"
  by (simp add: noCompletion_def list_all_iff reportsCompleted_def demoEnv_def alwaysError_def
      demoBackendStep_def js_def)

lemma demoPage_current:
  "currentProject (store demoPage) = Some (hd (projects (store demoPage)))"
  by (simp add: demoPage_def createProject_def initialState_def Let_def)

lemma statuses_alwaysError:
  "map stepStatuses (projects (store (handleStepAction (demoEnv alwaysError) (js ''p1'')
       (js ''analysis'') Action_run demoPage)))
   = [[Step_error, Step_pending, Step_pending, Step_pending]]"
  using known_analysis noCompletion_alwaysError
  by (simp add: handleStepAction_def runStep_timeout demoPage_def createProject_def
     initialState_def Let_def demoEnv_def setProcessing_def addMessage_def updateProjectStep_def
     updateSteps_def statusUpdate_def spreadStep_def noStepUpdates_def orElse_def pendingStep_def
     stepStatuses_def js_def)

theorem handleStepAction_timeout_witness:
  "currentProject (store demoPage) = Some (hd (projects (store demoPage)))
   \<and> knownStep (js ''analysis'')
   \<and> env_agent (demoEnv alwaysError) = None
   \<and> noCompletion (demoEnv alwaysError) (js ''analysis'')
   \<and> map stepStatuses (projects (store (handleStepAction (demoEnv alwaysError) (js ''p1'')
        (js ''analysis'') Action_run demoPage)))
       = [[Step_error, Step_pending, Step_pending, Step_pending]]
   \<and> message_content (last (messages (store (handleStepAction (demoEnv alwaysError) (js ''p1'')
        (js ''analysis'') Action_run demoPage))))
       = js ''Error in '' @ js ''analysis'' @ js '' phase: ''
           @ cleanUnicodeText (js ''analysis'' @ js '' timed out after 5 minutes'')"
  using demoPage_current known_analysis agent_demoEnv [of alwaysError] noCompletion_alwaysError
    statuses_alwaysError
    handleStepAction_timeout [OF demoPage_current known_analysis agent_demoEnv [of alwaysError]
      noCompletion_alwaysError, of "js ''p1''" Action_run]
  by simp

lemma error_is_not_completed: "js ''error'' \<noteq> js ''completed''"
  by (simp add: js_def)

text \<open>A poll that sees the step in status \<^verbatim>\<open>error\<close> changes neither the flag nor the store.\<close>

lemma error_answer_is_ignored:
  "reportsError env stepId k \<Longrightarrow>
   pollAttempt env cp stepId wb completed k state = (completed, state)"
proof -
  assume "reportsError env stepId k"
  then have "\<not> reportsCompleted env stepId k"
    using error_is_not_completed
    by (auto simp add: reportsError_def reportsCompleted_def
        split: PollResponse.splits option.splits)
  then show ?thesis
    by (rule pollAttempt_unchanged)
qed

lemma error_0:
  "reportsError (demoEnv alwaysError) (js ''analysis'') 0
   \<and> reportsError (demoEnv errorThenCompleted) (js ''analysis'') 0"
  by (simp add: reportsError_def demoEnv_def alwaysError_def errorThenCompleted_def
      demoBackendStep_def js_def)

lemma loop_alwaysError:
  "pollLoop (demoEnv alwaysError) cp (js ''analysis'') wb False 0 0 st = (False, 30, 300000, st)"
  using pollLoop_timeout [of False 0 "demoEnv alwaysError" "js ''analysis''" cp wb 0 st]
    noCompletion_alwaysError
  by (simp add: noCompletion_iff)

lemma messages_alwaysError:
  "map message_content (messages (store (handleStepAction (demoEnv alwaysError) (js ''p1'')
       (js ''analysis'') Action_run demoPage)))
   = [js ''Starting analysis phase...'',
      js ''Error in analysis phase: analysis timed out after 5 minutes'']"
  using known_analysis noCompletion_alwaysError
  by (simp add: handleStepAction_def runStep_timeout demoPage_def createProject_def
     initialState_def Let_def demoEnv_def setProcessing_def addMessage_def updateProjectStep_def
     sanitizeErrorMessage_def cleanUnicodeText_def removeRange_def inRange_def js_def)

lemma runStep_errorThenCompleted:
  "runStep (demoEnv errorThenCompleted) projectId (js ''analysis'') current state =
     (snd (pollAttempt (demoEnv errorThenCompleted) (project_id current) (js ''analysis'')
        (if project_workspace current \<noteq> [] then project_workspace current
         else js ''workspace/'' @ projectId) False (Suc 0)
        (addMessage (env_uuid (demoEnv errorThenCompleted) 0) (env_now (demoEnv errorThenCompleted) 0)
           Message_system (js ''Starting '' @ js ''analysis'' @ js '' phase...'')
           (Some [(js ''step'', js ''analysis'')])
           (updateProjectStep (env_now (demoEnv errorThenCompleted) 0) (project_id current)
              (js ''analysis'') (statusUpdate Step_in_progress) state))),
      None)"
  unfolding runStep_def Let_def statusUpdate_def
  by (simp add: known_analysis agent_demoEnv loop_errorThenCompleted)

lemma statuses_errorThenCompleted:
  "map stepStatuses (projects (store (handleStepAction (demoEnv errorThenCompleted) (js ''p1'')
       (js ''analysis'') Action_run demoPage)))
   = [[Step_completed, Step_pending, Step_pending, Step_pending]]"
proof -
  have "currentProject (store demoPage) = Some (hd (projects (store demoPage)))"
    by (rule demoPage_current)
  then have h: "handleStepAction (demoEnv errorThenCompleted) (js ''p1'') (js ''analysis'')
        Action_run demoPage
      = \<lparr>store = setProcessing False
           (fst (runStep (demoEnv errorThenCompleted) (js ''p1'') (js ''analysis'')
              (hd (projects (store demoPage))) (setProcessing True (store demoPage)))),
         isRunning = False\<rparr>"
    by (simp add: handleStepAction_def runStep_errorThenCompleted)
  show ?thesis
    unfolding h runStep_errorThenCompleted
    by (simp add: pollAttempt_def pollTry_def cleanOutputOf_def statusUpdate_def
     errorThenCompleted_def demoBackendStep_def
     demoPage_def createProject_def initialState_def Let_def
     demoEnv_def setProcessing_def addMessage_def updateProjectStep_def updateSteps_def
     spreadStep_def noStepUpdates_def orElse_def orString_def pendingStep_def stepStatuses_def
     js_def)
qed

text \<open>
  C3. The error that the loop throws for a step in status \<^verbatim>\<open>error\<close> is caught by the
  \<^verbatim>\<open>catch\<close> of the same turn, which only logs it, and the loop goes on. With a backend
  that answers \<^verbatim>\<open>error\<close> (message \<^verbatim>\<open>boom\<close>) to every poll, the run polls 30 times and
  its last message is the timeout, not the message of the backend. With a backend that
  answers \<^verbatim>\<open>error\<close> first and \<^verbatim>\<open>completed\<close> next, the run polls twice and the step
  ends completed.
\<close>

theorem error_poll_does_not_end_the_loop:
  "reportsError (demoEnv alwaysError) (js ''analysis'') 0
   \<and> fst (snd (pollLoop (demoEnv alwaysError) (js ''p1'') (js ''analysis'')
        (js ''workspace/demo-app'') False 0 0 (store demoPage))) = 30
   \<and> map message_content (messages (store (handleStepAction (demoEnv alwaysError) (js ''p1'')
        (js ''analysis'') Action_run demoPage)))
      = [js ''Starting analysis phase...'',
         js ''Error in analysis phase: analysis timed out after 5 minutes'']
   \<and> reportsError (demoEnv errorThenCompleted) (js ''analysis'') 0
   \<and> fst (snd (pollLoop (demoEnv errorThenCompleted) (js ''p1'') (js ''analysis'')
        (js ''workspace/demo-app'') False 0 0 (store demoPage))) = 2
   \<and> map stepStatuses (projects (store (handleStepAction (demoEnv errorThenCompleted) (js ''p1'')
        (js ''analysis'') Action_run demoPage)))
      = [[Step_completed, Step_pending, Step_pending, Step_pending]]"
  using error_0 messages_alwaysError statuses_errorThenCompleted
  by (simp add: loop_alwaysError loop_errorThenCompleted)








end
